theory Spec2Isabelle
  imports Complex_Main
begin

section \<open>Checkout and order fulfilment of \<open>apps/ventas/views.py\<close>\<close>

subsection \<open>Decimal amounts\<close>

text \<open>
  The source computes every amount with Python's \<open>decimal.Decimal\<close>. A \<open>Decimal\<close> is
  compared by its numeric value (\<open>==\<close>, \<open>!=\<close>, \<open><\<close>), so an amount is modelled by the
  rational number it denotes. Sums and products of \<open>Decimal\<close>s are exact while the
  coefficient of the result fits the context precision of 28 significant digits; the
  amounts of this program (prices and totals in a currency with two decimals, the
  percentages 0.15, 0.1, 0.05 and the factor 0.0005) are taken to stay inside it.

  \<open>d.quantize(Decimal('0.01'))\<close> runs in the default context, whose rounding mode is
  \<open>ROUND_HALF_EVEN\<close>: the result is the multiple of 0.01 nearest to \<open>d\<close>, and a value
  exactly half way between two multiples goes to the one whose last digit is even.
\<close>

definition quantize_001 :: "rat \<Rightarrow> rat" where
  "quantize_001 d =
     (let scaled = d * 100;
          n = \<lfloor>scaled\<rfloor>;
          resto = scaled - of_int n
      in of_int (if resto < 1 / 2 then n
                 else if 1 / 2 < resto then n + 1
                 else if even n then n else n + 1) / 100)"

subsection \<open>Shipping cost: \<open>calcular_costo_envio\<close>\<close>

text \<open>The \<open>if\<close>/\<open>elif\<close> chain that chooses \<open>porcentaje_envio\<close>, in the source's order.\<close>

definition porcentaje_envio :: "rat \<Rightarrow> int" where
  "porcentaje_envio subtotal =
     (if subtotal = 0 then 0
      else if subtotal < 100 then 15
      else if subtotal < 500 then 10
      else if subtotal < 1000 then 5
      else 0)"

text \<open>
  \<open>costo_envio = subtotal * (Decimal(str(porcentaje_envio)) / Decimal('100.0'))\<close>, then
  \<open>costo_envio.quantize(Decimal('0.01'))\<close>.
\<close>

definition calcular_costo_envio :: "rat \<Rightarrow> rat" where
  "calcular_costo_envio subtotal =
     (let costo_envio = subtotal * (of_int (porcentaje_envio subtotal) / 100)
      in quantize_001 costo_envio)"

text \<open>
  The schedule and the rounding as the specification words them, to compare with the
  code: the rate of each tier, rounding half up at two decimals, and what it means for
  \<open>c\<close> to be \<open>x\<close> rounded half even at two decimals.
\<close>

definition tasa_especificada :: "rat \<Rightarrow> rat" where
  "tasa_especificada S =
     (if S = 0 then 0
      else if 0 < S \<and> S < 100 then 15 / 100
      else if 100 \<le> S \<and> S < 500 then 10 / 100
      else if 500 \<le> S \<and> S < 1000 then 5 / 100
      else 0)"

definition redondeo_half_up :: "rat \<Rightarrow> rat" where
  "redondeo_half_up x = of_int \<lfloor>x * 100 + 1 / 2\<rfloor> / 100"

definition es_redondeo_half_even :: "rat \<Rightarrow> rat \<Rightarrow> bool" where
  "es_redondeo_half_even x c =
     (let n = \<lfloor>c * 100\<rfloor>
      in of_int n = c * 100 \<and> \<bar>x - c\<bar> \<le> 1 / 200 \<and> (\<bar>x - c\<bar> = 1 / 200 \<longrightarrow> even n))"

subsection \<open>Data model\<close>

text \<open>
  The model classes (\<open>Producto\<close>, \<open>Cliente\<close>, \<open>Tienda\<close>, \<open>TiendaCliente\<close>, \<open>Carrito\<close>,
  \<open>Detalle_Carrito\<close>, \<open>Venta\<close>, \<open>Detalle_Venta\<close>, \<open>Pago\<close>, \<open>Envio\<close>) are declared outside
  \<open>views.py\<close>; each record has the fields the views read or write, under the names the
  views use (prefixed where two classes share a field name). A row of \<open>Cliente\<close> and of
  \<open>Tienda\<close> is keyed by the text the Stripe session echoes for \<open>user_id\<close> and
  \<open>tienda_id\<close>, a \<open>Producto\<close> by the integer of \<open>producto_id\<close>. The rows of a table that
  only grows are a list, and the primary key of a row is its position.
\<close>

record producto =
  nombre :: string
  precio :: rat
  stock :: int

record cliente =
  puntos_acumulados :: rat

record tienda =
  tienda_nombre :: string

record carrito =
  carrito_cliente :: string
  carrito_tienda :: string
  carrito_total :: rat

record detalle_carrito =
  dc_carrito :: nat
  dc_producto :: int
  dc_cantidad :: int
  dc_precio_unitario :: rat

record venta =
  venta_total :: rat
  venta_estado :: string
  venta_tienda :: string
  venta_cliente :: string
  venta_carrito :: nat

record detalle_venta =
  dv_venta :: nat
  dv_producto :: int
  dv_cantidad :: int
  dv_precio_historico :: rat

record pago =
  pago_venta :: nat
  pago_tienda :: string
  stripe_payment_intent_id :: string
  monto_total :: rat
  pago_estado :: string

record envio =
  envio_venta :: nat
  envio_tienda :: string
  direccion_entrega :: string
  envio_estado :: string

text \<open>The entries written by \<open>log_action\<close>: what was done, and the acting user.\<close>

datatype accion =
    CompraProcesada nat rat string
  | ActualizoEstadoVenta nat string
  | ActualizoEstadoPago nat string nat
  | ActualizoEstadoEnvio nat string nat

record registro =
  reg_accion :: accion
  reg_usuario :: string

record db =
  productos :: "int \<rightharpoonup> producto"
  clientes :: "string \<rightharpoonup> cliente"
  tiendas :: "string \<rightharpoonup> tienda"
  tienda_clientes :: "(string \<times> string) list"
  carritos :: "carrito list"
  detalles_carrito :: "detalle_carrito list"
  ventas :: "venta list"
  detalles_venta :: "detalle_venta list"
  pagos :: "pago list"
  envios :: "envio list"
  bitacora :: "registro list"

subsection \<open>Exceptions and database operations\<close>

text \<open>
  Every exception the confirmation can raise inside \<open>transaction.atomic()\<close>.
  \<open>TypeOrValueError\<close> stands for the \<open>TypeError\<close> of iterating a payload that is no
  sequence and for the \<open>TypeError\<close>/\<open>ValueError\<close> of \<open>int(item.get('cantidad'))\<close>.
\<close>

datatype excepcion =
    ClienteDoesNotExist
  | TiendaDoesNotExist
  | ProductoDoesNotExist
  | MultipleObjectsReturned
  | AttributeError
  | TypeOrValueError
  | StockInsuficiente string
  | DiscrepanciaTotal rat rat

text \<open>
  A database operation takes the database and returns its result, or the exception it
  raised, with the database as the operation left it.
\<close>

type_synonym 'a orm = "db \<Rightarrow> (excepcion + 'a) \<times> db"

definition lanzar :: "excepcion \<Rightarrow> 'a orm" where
  "lanzar e s = (Inl e, s)"

definition luego :: "'a orm \<Rightarrow> ('a \<Rightarrow> 'b orm) \<Rightarrow> 'b orm" where
  "luego m f s = (case m s of (Inl e, s') \<Rightarrow> (Inl e, s') | (Inr x, s') \<Rightarrow> f x s')"

text \<open>
  \<open>with transaction.atomic():\<close> commits what the block wrote when the block ends, and
  rolls all of it back when an exception leaves the block; the exception goes on to the
  caller.
\<close>

definition atomic :: "'a orm \<Rightarrow> 'a orm" where
  "atomic bloque s = (case bloque s of (Inl e, s') \<Rightarrow> (Inl e, s) | (Inr x, s') \<Rightarrow> (Inr x, s'))"

definition cliente_get :: "string \<Rightarrow> cliente orm" where
  "cliente_get user_id s =
     (case clientes s user_id of None \<Rightarrow> (Inl ClienteDoesNotExist, s) | Some c \<Rightarrow> (Inr c, s))"

definition tienda_get :: "string \<Rightarrow> tienda orm" where
  "tienda_get pk s =
     (case tiendas s pk of None \<Rightarrow> (Inl TiendaDoesNotExist, s) | Some t \<Rightarrow> (Inr t, s))"

text \<open>
  \<open>TiendaCliente.objects.get_or_create(tienda=tienda, cliente_id=user_id)\<close>: the row when
  exactly one matches, a new row when none does (the flag says which), and
  \<open>MultipleObjectsReturned\<close> when several match.
\<close>

definition tienda_cliente_get_or_create :: "string \<Rightarrow> string \<Rightarrow> bool orm" where
  "tienda_cliente_get_or_create tienda_id user_id s =
     (let coincidencias = count_list (tienda_clientes s) (tienda_id, user_id)
      in if coincidencias = 0
         then (Inr True, s\<lparr>tienda_clientes := tienda_clientes s @ [(tienda_id, user_id)]\<rparr>)
         else if coincidencias = 1 then (Inr False, s)
         else (Inl MultipleObjectsReturned, s))"

definition carrito_create :: "carrito \<Rightarrow> nat orm" where
  "carrito_create c s = (Inr (length (carritos s)), s\<lparr>carritos := carritos s @ [c]\<rparr>)"

definition venta_create :: "venta \<Rightarrow> nat orm" where
  "venta_create v s = (Inr (length (ventas s)), s\<lparr>ventas := ventas s @ [v]\<rparr>)"

definition pago_create :: "pago \<Rightarrow> nat orm" where
  "pago_create p s = (Inr (length (pagos s)), s\<lparr>pagos := pagos s @ [p]\<rparr>)"

definition envio_create :: "envio \<Rightarrow> nat orm" where
  "envio_create e s = (Inr (length (envios s)), s\<lparr>envios := envios s @ [e]\<rparr>)"

definition detalle_carrito_bulk_create :: "detalle_carrito list \<Rightarrow> unit orm" where
  "detalle_carrito_bulk_create ds s = (Inr (), s\<lparr>detalles_carrito := detalles_carrito s @ ds\<rparr>)"

definition detalle_venta_bulk_create :: "detalle_venta list \<Rightarrow> unit orm" where
  "detalle_venta_bulk_create ds s = (Inr (), s\<lparr>detalles_venta := detalles_venta s @ ds\<rparr>)"

text \<open>
  \<open>Producto.objects.select_for_update().get(pk=item.get('producto_id'))\<close> reads the row
  from the database and builds a new object from it; a missing key gives \<open>pk=None\<close>,
  which matches no row. The object is the key with the fields read.
\<close>

definition producto_select_for_update_get :: "int option \<Rightarrow> (int \<times> producto) orm" where
  "producto_select_for_update_get pk s =
     (case pk of
        None \<Rightarrow> (Inl ProductoDoesNotExist, s)
      | Some k \<Rightarrow>
          (case productos s k of
             None \<Rightarrow> (Inl ProductoDoesNotExist, s)
           | Some p \<Rightarrow> (Inr (k, p), s)))"

text \<open>
  \<open>Producto.objects.bulk_update(objs, ['stock'])\<close> is one \<open>UPDATE\<close> whose new stock is
  \<open>CASE WHEN pk = .. THEN ..\<close> with one \<open>WHEN\<close> for each object, in the order of the
  list: for a key that several objects share, the first object's stock is written.
\<close>

definition producto_bulk_update_stock :: "(int \<times> producto) list \<Rightarrow> unit orm" where
  "producto_bulk_update_stock objs s =
     (Inr (),
      s\<lparr>productos :=
          foldr (\<lambda>(pk, obj) tabla.
                   case tabla pk of
                     None \<Rightarrow> tabla
                   | Some fila \<Rightarrow> tabla(pk \<mapsto> fila\<lparr>stock := stock obj\<rparr>))
                objs (productos s)\<rparr>)"

text \<open>\<open>cliente.save(update_fields=['puntos_acumulados'])\<close>.\<close>

definition cliente_save_puntos :: "string \<Rightarrow> rat \<Rightarrow> unit orm" where
  "cliente_save_puntos user_id puntos s =
     (Inr (),
      (case clientes s user_id of
         None \<Rightarrow> s
       | Some fila \<Rightarrow> s\<lparr>clientes := (clientes s)(user_id \<mapsto> fila\<lparr>puntos_acumulados := puntos\<rparr>)\<rparr>))"

text \<open>
  Modelled from the spec: \<open>apps.auditoria.utils.log_action\<close> is not in the sources. The
  specification's audit sink records the actor and the action and is fire-and-forget:
  here it adds one entry to the log and raises nothing.
\<close>

definition registrar :: "accion \<Rightarrow> string \<Rightarrow> db \<Rightarrow> db" where
  "registrar a usuario s = s\<lparr>bitacora := bitacora s @ [\<lparr>reg_accion = a, reg_usuario = usuario\<rparr>]\<rparr>"

definition log_action :: "accion \<Rightarrow> string \<Rightarrow> unit orm" where
  "log_action a usuario s = (Inr (), registrar a usuario s)"

subsection \<open>Order materialisation: \<open>PagoViewSet.verificar_sesion_checkout\<close>\<close>

text \<open>
  What \<open>json.loads(items_data_str)\<close> can hand to the loop \<open>for item in items_data\<close>: a
  value that cannot be iterated, or a sequence of elements. An element without a \<open>get\<close>
  method is \<open>NoEsDict\<close>; a dictionary is read through \<open>item.get('producto_id')\<close>
  (\<open>None\<close> when the key is absent or null) and \<open>int(item.get('cantidad'))\<close> (\<open>None\<close> when
  \<open>int\<close> raises).
\<close>

datatype item = NoEsDict | Item "int option" "int option"

datatype items_payload = NoIterable | Items "item list"

text \<open>
  The loop over the cart lines (lines 248 to 268). It carries \<open>subtotal_seguro\<close>,
  \<open>detalles_carrito_a_crear\<close> and \<open>productos_para_actualizar_stock\<close>; the decrement
  \<open>producto.stock -= cantidad\<close> changes the object in the list, not the database.
\<close>

fun procesar_items ::
  "nat \<Rightarrow> item list \<Rightarrow> rat \<times> detalle_carrito list \<times> (int \<times> producto) list
     \<Rightarrow> (rat \<times> detalle_carrito list \<times> (int \<times> producto) list) orm" where
  "procesar_items nuevo_carrito [] acc s = (Inr acc, s)"
| "procesar_items nuevo_carrito (it # resto) acc s =
     (case it of
        NoEsDict \<Rightarrow> (Inl AttributeError, s)
      | Item producto_id cantidad_leida \<Rightarrow>
          (case producto_select_for_update_get producto_id s of
             (Inl e, s') \<Rightarrow> (Inl e, s')
           | (Inr (pk, producto), s') \<Rightarrow>
               (case cantidad_leida of
                  None \<Rightarrow> (Inl TypeOrValueError, s')
                | Some cantidad \<Rightarrow>
                    if stock producto < cantidad
                    then (Inl (StockInsuficiente (nombre producto)), s')
                    else
                      (case acc of
                         (subtotal_seguro, detalles_carrito_a_crear,
                          productos_para_actualizar_stock) \<Rightarrow>
                           let precio_historico = precio producto
                           in procesar_items nuevo_carrito resto
                                (subtotal_seguro + precio_historico * of_int cantidad,
                                 detalles_carrito_a_crear @
                                   [\<lparr>dc_carrito = nuevo_carrito, dc_producto = pk,
                                     dc_cantidad = cantidad,
                                     dc_precio_unitario = precio_historico\<rparr>],
                                 productos_para_actualizar_stock @
                                   [(pk, producto\<lparr>stock := stock producto - cantidad\<rparr>)])
                                s'))))"

text \<open>The body of \<open>with transaction.atomic():\<close> (lines 223 to 322), statement by statement.\<close>

definition materializar ::
  "string \<Rightarrow> string \<Rightarrow> string \<Rightarrow> items_payload \<Rightarrow> string \<Rightarrow> rat \<Rightarrow> unit orm" where
  "materializar user_id tienda_id direccion items_data stripe_payment_id total_pagado =
     luego (cliente_get user_id) (\<lambda>cliente.
     luego (tienda_get tienda_id) (\<lambda>tienda.
     luego (tienda_cliente_get_or_create tienda_id user_id) (\<lambda>fue_creado.
     luego (carrito_create \<lparr>carrito_cliente = user_id, carrito_tienda = tienda_id,
                            carrito_total = total_pagado\<rparr>) (\<lambda>nuevo_carrito.
     luego (case items_data of
              NoIterable \<Rightarrow> lanzar TypeOrValueError
            | Items items \<Rightarrow> procesar_items nuevo_carrito items (0, [], []))
       (\<lambda>(subtotal_seguro, detalles_carrito_a_crear, productos_para_actualizar_stock).
     let costo_envio_seguro = calcular_costo_envio subtotal_seguro;
         total_final_seguro = subtotal_seguro + costo_envio_seguro
     in if quantize_001 total_final_seguro \<noteq> quantize_001 total_pagado
        then lanzar (DiscrepanciaTotal total_pagado total_final_seguro)
        else
     luego (venta_create \<lparr>venta_total = total_pagado, venta_estado = ''PROCESADA'',
                          venta_tienda = tienda_id, venta_cliente = user_id,
                          venta_carrito = nuevo_carrito\<rparr>) (\<lambda>nueva_venta.
     let detalles_venta_a_crear =
           map (\<lambda>item. \<lparr>dv_venta = nueva_venta, dv_producto = dc_producto item,
                         dv_cantidad = dc_cantidad item,
                         dv_precio_historico = dc_precio_unitario item\<rparr>)
               detalles_carrito_a_crear
     in
     luego (pago_create \<lparr>pago_venta = nueva_venta, pago_tienda = tienda_id,
                         stripe_payment_intent_id = stripe_payment_id,
                         monto_total = total_pagado, pago_estado = ''COMPLETADO''\<rparr>) (\<lambda>_.
     luego (envio_create \<lparr>envio_venta = nueva_venta, envio_tienda = tienda_id,
                          direccion_entrega = direccion,
                          envio_estado = ''EN_PREPARACION''\<rparr>) (\<lambda>_.
     luego (detalle_carrito_bulk_create detalles_carrito_a_crear) (\<lambda>_.
     luego (detalle_venta_bulk_create detalles_venta_a_crear) (\<lambda>_.
     luego (producto_bulk_update_stock productos_para_actualizar_stock) (\<lambda>_.
     let puntos_ganados = total_pagado * (5 / 10000)
     in
     luego (cliente_save_puntos user_id (puntos_acumulados cliente + puntos_ganados)) (\<lambda>_.
     log_action (CompraProcesada nueva_venta total_pagado (tienda_nombre tienda)) user_id
     ))))))))))))"

text \<open>
  The Stripe session as \<open>stripe.checkout.Session.retrieve\<close> returns it: the status, the
  metadata (text to text), the payment intent and the captured amount in minor units,
  each absent or present. The retrieval itself fails with a \<open>StripeError\<close> or with any
  other exception.
\<close>

record session =
  status :: string
  metadata :: "string \<rightharpoonup> string"
  payment_intent :: "string option"
  amount_total :: "int option"

datatype fallo_retrieve = StripeError | OtraExcepcion

datatype cuerpo =
    Exito
  | SinCuerpo
  | ErrorNoSessionId
  | ErrorSesionNoCompletada
  | ErrorMetadataIncompleta
  | ErrorProcesarPedido excepcion
  | ErrorDeStripe
  | ErrorGeneral

text \<open>A \<open>Response\<close>: the HTTP status code and the body.\<close>

record 'c respuesta =
  codigo :: nat
  contenido :: 'c

text \<open>Python's truth value of a text that may be absent, and the text itself.\<close>

definition truthy :: "string option \<Rightarrow> bool" where
  "truthy v = (case v of None \<Rightarrow> False | Some t \<Rightarrow> t \<noteq> [])"

definition texto :: "string option \<Rightarrow> string" where
  "texto v = (case v of None \<Rightarrow> [] | Some t \<Rightarrow> t)"

text \<open>
  The view (lines 190 to 333). \<open>retrieve\<close> is the Stripe gateway and \<open>json_loads\<close> the
  decoding of the items payload (\<open>None\<close> for \<open>JSONDecodeError\<close>); \<open>session_id\<close> is
  \<open>request.data.get('session_id')\<close>. \<open>Decimal(total_pagado_centavos)\<close> raises for an
  absent amount, which the outer \<open>except Exception\<close> answers.
\<close>

definition verificar_sesion_checkout ::
  "(string \<Rightarrow> fallo_retrieve + session) \<Rightarrow> (string \<Rightarrow> items_payload option)
     \<Rightarrow> string option \<Rightarrow> db \<Rightarrow> cuerpo respuesta \<times> db" where
  "verificar_sesion_checkout retrieve json_loads session_id s =
     (if \<not> truthy session_id
      then (\<lparr>codigo = 400, contenido = ErrorNoSessionId\<rparr>, s)
      else
        (case retrieve (texto session_id) of
           Inl StripeError \<Rightarrow> (\<lparr>codigo = 500, contenido = ErrorDeStripe\<rparr>, s)
         | Inl OtraExcepcion \<Rightarrow> (\<lparr>codigo = 500, contenido = ErrorGeneral\<rparr>, s)
         | Inr session \<Rightarrow>
             if status session \<noteq> ''complete''
             then (\<lparr>codigo = 400, contenido = ErrorSesionNoCompletada\<rparr>, s)
             else
               let user_id = metadata session ''user_id'';
                   tienda_id = metadata session ''tienda_id'';
                   direccion = metadata session ''direccion_entrega'';
                   items_data_str = metadata session ''items_data'';
                   stripe_payment_id = payment_intent session
               in
               (case amount_total session of
                  None \<Rightarrow> (\<lparr>codigo = 500, contenido = ErrorGeneral\<rparr>, s)
                | Some total_pagado_centavos \<Rightarrow>
                    let total_pagado = of_int total_pagado_centavos / 100
                    in
                    if \<not> list_all truthy
                         [user_id, tienda_id, direccion, items_data_str, stripe_payment_id]
                    then (\<lparr>codigo = 500, contenido = ErrorMetadataIncompleta\<rparr>, s)
                    else
                      (case json_loads (texto items_data_str) of
                         None \<Rightarrow> (\<lparr>codigo = 400, contenido = SinCuerpo\<rparr>, s)
                       | Some items_data \<Rightarrow>
                           (case atomic
                                   (materializar (texto user_id) (texto tienda_id)
                                      (texto direccion) items_data
                                      (texto stripe_payment_id) total_pagado) s of
                              (Inl e, s') \<Rightarrow>
                                (\<lparr>codigo = 500, contenido = ErrorProcesarPedido e\<rparr>, s')
                            | (Inr _, s') \<Rightarrow> (\<lparr>codigo = 200, contenido = Exito\<rparr>, s'))))))"

subsection \<open>Staff status update: \<open>VentaAdminViewSet.partial_update\<close>\<close>

text \<open>
  The body of an answer names the model whose status was refused, as the message does
  (\<open>no es valido para Venta\<close>, \<open>para Pago\<close>, \<open>para Envio\<close>).
\<close>

datatype modelo = ModeloVenta | ModeloPago | ModeloEnvio

datatype cuerpo_admin =
    VentaSerializada nat venta
  | EstadoNoValido string modelo
  | SinPagoAsociado
  | SinEnvioAsociado
  | NoEncontrado

text \<open>
  \<open>instance.pagos.first()\<close> and \<open>instance.envio\<close>: the position of the first row that
  refers to the sale, \<open>None\<close> when there is none.
\<close>

definition pagos_first :: "nat \<Rightarrow> db \<Rightarrow> nat option" where
  "pagos_first pk s = List.find (\<lambda>i. pago_venta (pagos s ! i) = pk) [0..<length (pagos s)]"

definition envio_de :: "nat \<Rightarrow> db \<Rightarrow> nat option" where
  "envio_de pk s = List.find (\<lambda>i. envio_venta (envios s ! i) = pk) [0..<length (envios s)]"

text \<open>
  The three blocks of the view (lines 437 to 468), each for one field of the request.
  A block returns \<open>Some\<close> response when it ends the view with a \<open>return\<close>, and \<open>None\<close>
  when the view goes on; \<open>save(update_fields=['estado'])\<close> writes at once, with no
  transaction around the view. \<open>ESTADOS_VENTA\<close>, \<open>ESTADOS_PAGO\<close> and \<open>ESTADOS_ENVIO\<close>
  are declared with the models: the blocks take the list of their keys
  (\<open>[s[0] for s in ...]\<close>).
\<close>

definition actualizar_estado_venta ::
  "string list \<Rightarrow> string \<Rightarrow> nat \<Rightarrow> string option \<Rightarrow> db
     \<Rightarrow> cuerpo_admin respuesta option \<times> db" where
  "actualizar_estado_venta estados_venta usuario pk nuevo_estado_venta s =
     (if truthy nuevo_estado_venta
      then
        if texto nuevo_estado_venta \<notin> set estados_venta
        then (Some \<lparr>codigo = 400,
                     contenido = EstadoNoValido (texto nuevo_estado_venta) ModeloVenta\<rparr>, s)
        else
          (None,
           registrar (ActualizoEstadoVenta pk (texto nuevo_estado_venta)) usuario
             (s\<lparr>ventas :=
                  (ventas s)[pk := (ventas s ! pk)\<lparr>venta_estado := texto nuevo_estado_venta\<rparr>]\<rparr>))
      else (None, s))"




subsection \<open>Notions used to state the properties\<close>

text \<open>
  A request that passes every check of the view before \<open>with transaction.atomic()\<close>:
  the session it names, the captured amount in minor units and the decoded items.
\<close>

definition entra_en_transaccion ::
  "(string \<Rightarrow> fallo_retrieve + session) \<Rightarrow> (string \<Rightarrow> items_payload option)
     \<Rightarrow> string option \<Rightarrow> session \<Rightarrow> int \<Rightarrow> items_payload \<Rightarrow> bool" where
  "entra_en_transaccion retrieve json_loads session_id ses centavos items_data =
     (truthy session_id
      \<and> retrieve (texto session_id) = Inr ses
      \<and> status ses = ''complete''
      \<and> amount_total ses = Some centavos
      \<and> list_all truthy
            [metadata ses ''user_id'', metadata ses ''tienda_id'',
             metadata ses ''direccion_entrega'', metadata ses ''items_data'',
             payment_intent ses]
      \<and> json_loads (texto (metadata ses ''items_data'')) = Some items_data)"

text \<open>The block of the transaction with the values the view takes from the session.\<close>

definition bloque_de :: "session \<Rightarrow> int \<Rightarrow> items_payload \<Rightarrow> unit orm" where
  "bloque_de ses centavos items_data =
     materializar (texto (metadata ses ''user_id'')) (texto (metadata ses ''tienda_id''))
       (texto (metadata ses ''direccion_entrega'')) items_data
       (texto (payment_intent ses)) (of_int centavos / 100)"

text \<open>
  A cart line the loop accepts against a catalogue: a product key and a quantity, the
  product in the catalogue, and its stock not below the quantity. The specification's
  subtotal over a catalogue: the sum of price times quantity over the lines.
\<close>

fun linea_valida :: "(int \<rightharpoonup> producto) \<Rightarrow> item \<Rightarrow> bool" where
  "linea_valida tabla (Item (Some pk) (Some cantidad)) =
     (case tabla pk of None \<Rightarrow> False | Some p \<Rightarrow> cantidad \<le> stock p)"
| "linea_valida tabla _ = False"

fun subtotal_catalogo :: "(int \<rightharpoonup> producto) \<Rightarrow> item list \<Rightarrow> rat" where
  "subtotal_catalogo tabla [] = 0"
| "subtotal_catalogo tabla (Item (Some pk) (Some cantidad) # resto) =
     (case tabla pk of None \<Rightarrow> 0 | Some p \<Rightarrow> precio p * of_int cantidad)
       + subtotal_catalogo tabla resto"
| "subtotal_catalogo tabla (_ # resto) = subtotal_catalogo tabla resto"

text \<open>
  The objects the loop collects for \<open>bulk_update\<close> over a catalogue: for each line the
  product as read from the catalogue, with the quantity taken off its stock.
\<close>

fun objetos_descontados :: "(int \<rightharpoonup> producto) \<Rightarrow> item list \<Rightarrow> (int \<times> producto) list" where
  "objetos_descontados tabla [] = []"
| "objetos_descontados tabla (Item (Some pk) (Some cantidad) # resto) =
     (case tabla pk of None \<Rightarrow> [] | Some p \<Rightarrow> [(pk, p\<lparr>stock := stock p - cantidad\<rparr>)])
       @ objetos_descontados tabla resto"
| "objetos_descontados tabla (_ # resto) = objetos_descontados tabla resto"

text \<open>
  A run reaches the comparison of the totals when the customer and the shop of the
  session exist, at most one association of the two exists, and the loop accepts every
  line. The total the view then derives from the catalogue is the subtotal plus the
  shipping cost of the subtotal.
\<close>

definition llega_a_la_comparacion :: "db \<Rightarrow> session \<Rightarrow> item list \<Rightarrow> bool" where
  "llega_a_la_comparacion s ses items =
     (clientes s (texto (metadata ses ''user_id'')) \<noteq> None
      \<and> tiendas s (texto (metadata ses ''tienda_id'')) \<noteq> None
      \<and> count_list (tienda_clientes s)
            (texto (metadata ses ''tienda_id''), texto (metadata ses ''user_id'')) \<le> 1
      \<and> list_all (linea_valida (productos s)) items)"

definition total_recalculado :: "db \<Rightarrow> item list \<Rightarrow> rat" where
  "total_recalculado s items =
     (let subtotal = subtotal_catalogo (productos s) items
      in subtotal + calcular_costo_envio subtotal)"

subsection \<open>A small shop, for concrete runs\<close>

text \<open>
  One product (key 1, price 10.00, five in stock), one customer (user 7, no points),
  one shop (key 3). A completed session of user 7 at shop 3 that captured \<open>centavos\<close>
  minor units.
\<close>

definition db_demo :: db where
  "db_demo =
     \<lparr>productos = [1 \<mapsto> \<lparr>nombre = ''Cafe'', precio = 10, stock = 5\<rparr>],
      clientes = [''7'' \<mapsto> \<lparr>puntos_acumulados = 0\<rparr>],
      tiendas = [''3'' \<mapsto> \<lparr>tienda_nombre = ''Tostadora''\<rparr>],
      tienda_clientes = [],
      carritos = [], detalles_carrito = [], ventas = [], detalles_venta = [],
      pagos = [], envios = [], bitacora = []\<rparr>"

definition sesion_demo :: "int \<Rightarrow> session" where
  "sesion_demo centavos =
     \<lparr>status = ''complete'',
      metadata = [''user_id'' \<mapsto> ''7'', ''tienda_id'' \<mapsto> ''3'',
                  ''direccion_entrega'' \<mapsto> ''Calle 1'', ''items_data'' \<mapsto> ''[...]''],
      payment_intent = Some ''pi_1'',
      amount_total = Some centavos\<rparr>"





section \<open>Properties\<close>

subsection \<open>Rounding to cents\<close>

lemma quantize_001_ok: "es_redondeo_half_even x (quantize_001 x)"
proof -
  define n where "n = \<lfloor>x * 100\<rfloor>"
  define r where "r = x * 100 - of_int n"
  define m where "m = (if r < 1 / 2 then n else if 1 / 2 < r then n + 1 else if even n then n else n + 1)"
  have r0: "0 \<le> r" and r1: "r < 1"
    unfolding r_def n_def by linarith+
  have q: "quantize_001 x = of_int m / 100"
    unfolding quantize_001_def Let_def m_def r_def n_def by simp
  have c100: "quantize_001 x * 100 = of_int m"
    by (simp add: q)
  have fl: "\<lfloor>quantize_001 x * 100\<rfloor> = m"
    by (simp add: c100)
  have diff: "x - quantize_001 x = (of_int n + r - of_int m) / 100"
    unfolding q r_def by (simp add: field_simps)
  have bound: "\<bar>of_int n + r - (of_int m :: rat)\<bar> \<le> 1 / 2"
    unfolding m_def using r0 r1 by (auto simp: abs_if)
  have tie: "\<bar>of_int n + r - (of_int m :: rat)\<bar> = 1 / 2 \<Longrightarrow> even m"
    unfolding m_def using r0 r1 by (auto simp: abs_if split: if_splits)
  have a: "\<bar>x - quantize_001 x\<bar> = \<bar>of_int n + r - of_int m\<bar> / 100"
    unfolding diff by simp
  show ?thesis
    unfolding es_redondeo_half_even_def Let_def fl
    using bound tie by (simp add: c100 a)
qed

lemma quantize_001_entero: "\<exists>m::int. quantize_001 x = of_int m / 100"
  unfolding quantize_001_def Let_def by blast

lemma quantize_001_cerca: "\<bar>x - quantize_001 x\<bar> \<le> 1 / 200"
  using quantize_001_ok [of x] unfolding es_redondeo_half_even_def Let_def by simp

lemma quantize_001_nonneg: "0 \<le> x \<Longrightarrow> 0 \<le> quantize_001 x"
proof -
  assume x: "0 \<le> x"
  have "0 \<le> \<lfloor>x * 100\<rfloor>" using x by simp
  then show ?thesis
    unfolding quantize_001_def Let_def by auto
qed

lemma quantize_001_mono:
  assumes "x \<le> y"
  shows "quantize_001 x \<le> quantize_001 y"
proof (rule ccontr)
  assume neg: "\<not> quantize_001 x \<le> quantize_001 y"
  obtain a :: int where a: "quantize_001 x = of_int a / 100"
    using quantize_001_entero by blast
  obtain b :: int where b: "quantize_001 y = of_int b / 100"
    using quantize_001_entero by blast
  from neg have "b < a" unfolding a b by simp
  then have "b + 1 \<le> a" by simp
  then have "(of_int b :: rat) + 1 \<le> of_int a"
    by (metis of_int_1 of_int_add of_int_le_iff)
  then have gap: "quantize_001 y + 1 / 100 \<le> quantize_001 x"
    unfolding a b by (simp add: field_simps)
  have "quantize_001 x - 1 / 200 \<le> x"
    using quantize_001_cerca [of x] by (simp add: abs_if split: if_splits)
  moreover have "y \<le> quantize_001 y + 1 / 200"
    using quantize_001_cerca [of y] by (simp add: abs_if split: if_splits)
  ultimately have "y \<le> x" using gap by linarith
  with assms have "x = y" by simp
  with neg show False by simp
qed

subsection \<open>Shipping cost\<close>

lemma porcentaje_envio_tasa:
  "0 \<le> S \<Longrightarrow> of_int (porcentaje_envio S) / 100 = tasa_especificada S"
  by (auto simp: porcentaje_envio_def tasa_especificada_def)

lemma porcentaje_envio_rango: "0 \<le> porcentaje_envio S \<and> porcentaje_envio S \<le> 15"
  by (simp add: porcentaje_envio_def)

lemma porcentaje_envio_antimono:
  "0 < S \<Longrightarrow> S \<le> S' \<Longrightarrow> porcentaje_envio S' \<le> porcentaje_envio S"
  by (auto simp: porcentaje_envio_def)

text \<open>
  Claim C4, as the code has it. For every subtotal \<open>S \<ge> 0\<close> the shipping cost is
  \<open>S\<close> times the rate of the tier of \<open>S\<close> (0 for \<open>S = 0\<close>, 15% below 100, 10% from 100
  and below 500, 5% from 500 and below 1000, 0 from 1000 on), rounded to two decimals
  half even: a multiple of 0.01 at most 0.005 away from the product, and the even
  multiple when the product is exactly half way. The cost of 100 is 10.00, of 0 is 0.00
  and of 999.99 is 50.00.
\<close>

theorem calcular_costo_envio_half_even:
  assumes "0 \<le> S"
  shows "es_redondeo_half_even (S * tasa_especificada S) (calcular_costo_envio S)
         \<and> calcular_costo_envio 100 = 10
         \<and> calcular_costo_envio 0 = 0
         \<and> calcular_costo_envio (99999 / 100) = 50"
proof -
  have "calcular_costo_envio S = quantize_001 (S * tasa_especificada S)"
    unfolding calcular_costo_envio_def Let_def
    using porcentaje_envio_tasa [OF assms] by simp
  then have "es_redondeo_half_even (S * tasa_especificada S) (calcular_costo_envio S)"
    using quantize_001_ok by simp
  moreover have "calcular_costo_envio 100 = 10" by code_simp
  moreover have "calcular_costo_envio 0 = 0" by code_simp
  moreover have "calcular_costo_envio (99999 / 100) = 50" by code_simp
  ultimately show ?thesis by simp
qed

theorem calcular_costo_envio_half_even_witness:
  "es_redondeo_half_even (3 / 10 * tasa_especificada (3 / 10)) (calcular_costo_envio (3 / 10))
   \<and> calcular_costo_envio (3 / 10) = 4 / 100"
proof -
  have h: "(0::rat) \<le> 3 / 10" by simp
  have a: "es_redondeo_half_even (3 / 10 * tasa_especificada (3 / 10))
             (calcular_costo_envio (3 / 10))"
    using calcular_costo_envio_half_even [OF h] by (rule conjunct1)
  have b: "calcular_costo_envio (3 / 10) = 4 / 100" by code_simp
  show ?thesis using a b by (rule conjI)
qed

text \<open>
  Rounding half up, as claim C4 words it, is not what the code does: the subtotal 0.30
  is in the 15% tier, the product 0.045 is half way between 0.04 and 0.05, the code
  returns 0.04 and rounding half up gives 0.05.
\<close>

theorem calcular_costo_envio_half_up_counterexample:
  "calcular_costo_envio (3 / 10) \<noteq> redondeo_half_up (3 / 10 * tasa_especificada (3 / 10))"
  by code_simp

text \<open>
  Claim C5, as the code has it. For every subtotal \<open>S \<ge> 0\<close> the cost is a function of
  \<open>S\<close> alone, it is not negative, it is at most 15% of \<open>S\<close> rounded to two decimals
  (so at most 15% of \<open>S\<close> plus half a cent), and the percentage applied never grows as
  a positive subtotal grows.
\<close>

theorem calcular_costo_envio_cotas:
  assumes "0 \<le> S"
  shows "(\<forall>S'. S' = S \<longrightarrow> calcular_costo_envio S' = calcular_costo_envio S)
         \<and> 0 \<le> calcular_costo_envio S
         \<and> calcular_costo_envio S \<le> quantize_001 (S * (15 / 100))
         \<and> calcular_costo_envio S \<le> S * (15 / 100) + 1 / 200
         \<and> (\<forall>S'. 0 < S \<and> S \<le> S' \<longrightarrow> porcentaje_envio S' \<le> porcentaje_envio S)"
proof -
  have r: "0 \<le> (of_int (porcentaje_envio S) :: rat) / 100"
    using porcentaje_envio_rango [of S] by simp
  have r15: "(of_int (porcentaje_envio S) :: rat) / 100 \<le> 15 / 100"
    using porcentaje_envio_rango [of S] by simp
  have nonneg: "0 \<le> calcular_costo_envio S"
    unfolding calcular_costo_envio_def Let_def
    using assms r by (intro quantize_001_nonneg mult_nonneg_nonneg)
  have le: "S * (of_int (porcentaje_envio S) / 100) \<le> S * (15 / 100)"
    using assms r15 by (rule mult_left_mono [rotated])
  have q: "calcular_costo_envio S \<le> quantize_001 (S * (15 / 100))"
    unfolding calcular_costo_envio_def Let_def using le by (rule quantize_001_mono)
  have "quantize_001 (S * (15 / 100)) \<le> S * (15 / 100) + 1 / 200"
    using quantize_001_cerca [of "S * (15 / 100)"] by (simp add: abs_if split: if_splits)
  with q have up: "calcular_costo_envio S \<le> S * (15 / 100) + 1 / 200" by linarith
  show ?thesis
    using nonneg q up porcentaje_envio_antimono by blast
qed

theorem calcular_costo_envio_cotas_witness:
  "0 \<le> calcular_costo_envio (5 / 100)
   \<and> calcular_costo_envio (5 / 100) \<le> 5 / 100 * (15 / 100) + 1 / 200
   \<and> porcentaje_envio 100 \<le> porcentaje_envio (5 / 100)"
proof -
  have h: "(0::rat) \<le> 5 / 100" by simp
  note t = calcular_costo_envio_cotas [OF h]
  have a: "0 \<le> calcular_costo_envio (5 / 100)"
    using t by blast
  have b: "calcular_costo_envio (5 / 100) \<le> 5 / 100 * (15 / 100) + 1 / 200"
    using t by blast
  have c: "\<forall>S'. 0 < (5 / 100 :: rat) \<and> 5 / 100 \<le> S' \<longrightarrow>
             porcentaje_envio S' \<le> porcentaje_envio (5 / 100)"
    using t by blast
  have d: "0 < (5 / 100 :: rat) \<and> (5 / 100 :: rat) \<le> 100" by simp
  have e: "porcentaje_envio 100 \<le> porcentaje_envio (5 / 100)"
    using c d by blast
  show ?thesis using a b e by blast
qed

text \<open>
  The bound of claim C5 without the rounding fails: the cost of 0.05 is 0.01, and 15% of
  0.05 is 0.0075.
\<close>

theorem calcular_costo_envio_15_counterexample:
  "\<not> calcular_costo_envio (5 / 100) \<le> 15 / 100 * (5 / 100)"
  by code_simp

subsection \<open>The transaction block\<close>

lemmas ops_defs = materializar_def luego_def cliente_get_def tienda_get_def
    tienda_cliente_get_or_create_def carrito_create_def venta_create_def pago_create_def
    envio_create_def detalle_carrito_bulk_create_def detalle_venta_bulk_create_def
    producto_bulk_update_stock_def cliente_save_puntos_def log_action_def registrar_def
    lanzar_def

lemma procesar_items_estado:
  "procesar_items c items acc s = (r, s') \<Longrightarrow> s' = s"
  by (induction items arbitrary: acc)
     (auto simp: producto_select_for_update_get_def Let_def
           split: item.splits option.splits if_splits prod.splits sum.splits)

lemma procesar_items_solo_productos:
  "productos s = productos t \<Longrightarrow>
   fst (procesar_items c items acc s) = fst (procesar_items c items acc t)"
  by (induction items arbitrary: acc)
     (auto simp: producto_select_for_update_get_def Let_def
           split: item.splits option.splits if_splits prod.splits sum.splits)

lemma procesar_items_D:
  assumes "procesar_items c items acc s1 = (r, s')"
  shows "s' = s1 \<and> (\<forall>t. productos t = productos s1 \<longrightarrow> fst (procesar_items c items acc t) = r)"
proof -
  have "s' = s1" using assms by (rule procesar_items_estado)
  moreover have "fst (procesar_items c items acc t) = r" if "productos t = productos s1" for t
    using procesar_items_solo_productos [OF that, of c items acc] assms by simp
  ultimately show ?thesis by blast
qed

lemma luego_Inr:
  "luego m f s = (Inr y, s') \<longleftrightarrow> (\<exists>x s1. m s = (Inr x, s1) \<and> f x s1 = (Inr y, s'))"
  by (auto simp: luego_def split: prod.splits sum.splits)

lemma materializar_exito:
  assumes "materializar uid tid dir items_data pid tot s = (Inr u, s')"
  shows "\<exists>cl ti items sub dets prods.
     clientes s uid = Some cl \<and> tiendas s tid = Some ti
     \<and> count_list (tienda_clientes s) (tid, uid) \<le> 1
     \<and> items_data = Items items
     \<and> fst (procesar_items (length (carritos s)) items (0, [], []) s) = Inr (sub, dets, prods)
     \<and> quantize_001 (sub + calcular_costo_envio sub) = quantize_001 tot
     \<and> tienda_clientes s' =
           (if count_list (tienda_clientes s) (tid, uid) = 0
            then tienda_clientes s @ [(tid, uid)] else tienda_clientes s)
     \<and> carritos s' = carritos s @ [\<lparr>carrito_cliente = uid, carrito_tienda = tid, carrito_total = tot\<rparr>]
     \<and> ventas s' = ventas s @ [\<lparr>venta_total = tot, venta_estado = ''PROCESADA'',
                          venta_tienda = tid, venta_cliente = uid,
                          venta_carrito = length (carritos s)\<rparr>]
     \<and> pagos s' = pagos s @ [\<lparr>pago_venta = length (ventas s), pago_tienda = tid,
                         stripe_payment_intent_id = pid,
                         monto_total = tot, pago_estado = ''COMPLETADO''\<rparr>]
     \<and> envios s' = envios s @ [\<lparr>envio_venta = length (ventas s), envio_tienda = tid,
                          direccion_entrega = dir,
                          envio_estado = ''EN_PREPARACION''\<rparr>]
     \<and> detalles_carrito s' = detalles_carrito s @ dets
     \<and> detalles_venta s' = detalles_venta s @
           map (\<lambda>item. \<lparr>dv_venta = length (ventas s), dv_producto = dc_producto item,
                         dv_cantidad = dc_cantidad item,
                         dv_precio_historico = dc_precio_unitario item\<rparr>) dets
     \<and> productos s' =
           foldr (\<lambda>(pk, obj) tabla.
                   case tabla pk of
                     None \<Rightarrow> tabla
                   | Some fila \<Rightarrow> tabla(pk \<mapsto> fila\<lparr>stock := stock obj\<rparr>))
                prods (productos s)
     \<and> clientes s' = (clientes s)(uid \<mapsto> cl\<lparr>puntos_acumulados := puntos_acumulados cl + tot * (5 / 10000)\<rparr>)
     \<and> tiendas s' = tiendas s
     \<and> bitacora s' = bitacora s @
           [\<lparr>reg_accion = CompraProcesada (length (ventas s)) tot (tienda_nombre ti),
             reg_usuario = uid\<rparr>]"
  using assms
  unfolding ops_defs Let_def
  by (auto split: option.splits if_splits prod.splits sum.splits items_payload.splits
           dest!: procesar_items_D)


lemma procesar_items_validas:
  assumes "list_all (linea_valida (productos s)) items"
  shows "\<exists>dets prods. procesar_items c items (sub0, d0, p0) s =
           (Inr (sub0 + subtotal_catalogo (productos s) items, dets, prods), s)"
  using assms
proof (induction items arbitrary: sub0 d0 p0)
  case Nil
  then show ?case by simp
next
  case (Cons it items)
  from Cons.prems obtain pk q p where it: "it = Item (Some pk) (Some q)"
    and p: "productos s pk = Some p" and q: "q \<le> stock p"
    and rest: "list_all (linea_valida (productos s)) items"
    by (cases "(productos s, it)" rule: linea_valida.cases)
       (auto split: option.splits)
  from Cons.IH [OF rest, of "sub0 + precio p * of_int q"
      "d0 @ [\<lparr>dc_carrito = c, dc_producto = pk, dc_cantidad = q, dc_precio_unitario = precio p\<rparr>]"
      "p0 @ [(pk, p\<lparr>stock := stock p - q\<rparr>)]"]
  show ?case
    using it p q by (auto simp: producto_select_for_update_get_def Let_def add.assoc)
qed

lemma procesar_items_Inr:
  assumes "fst (procesar_items c items (sub0, d0, p0) s) = Inr (sub, dets, prods)"
  shows "list_all (linea_valida (productos s)) items
         \<and> sub = sub0 + subtotal_catalogo (productos s) items"
  using assms
proof (induction items arbitrary: sub0 d0 p0)
  case Nil
  then show ?case by simp
next
  case (Cons it items)
  show ?case
  proof (cases it)
    case NoEsDict
    with Cons.prems show ?thesis by simp
  next
    case (Item pko qo)
    from Cons.prems Item obtain pk q p where pk: "pko = Some pk" and qq: "qo = Some q"
      and p: "productos s pk = Some p" and q: "q \<le> stock p"
      by (auto simp: producto_select_for_update_get_def Let_def
               split: option.splits if_splits)
    from Cons.prems Item pk qq p q
    have "fst (procesar_items c items (sub0 + precio p * of_int q,
              d0 @ [\<lparr>dc_carrito = c, dc_producto = pk, dc_cantidad = q, dc_precio_unitario = precio p\<rparr>],
              p0 @ [(pk, p\<lparr>stock := stock p - q\<rparr>)]) s) = Inr (sub, dets, prods)"
      by (simp add: producto_select_for_update_get_def Let_def)
    from Cons.IH [OF this] show ?thesis
      using Item pk qq p q by (simp add: add.assoc)
  qed
qed


lemma verificar_en_transaccion:
  assumes "entra_en_transaccion retrieve json_loads session_id ses centavos items_data"
  shows "verificar_sesion_checkout retrieve json_loads session_id s =
     (case bloque_de ses centavos items_data s of
        (Inl e, s') \<Rightarrow> (\<lparr>codigo = 500, contenido = ErrorProcesarPedido e\<rparr>, s)
      | (Inr u, s') \<Rightarrow> (\<lparr>codigo = 200, contenido = Exito\<rparr>, s'))"
  using assms
  by (auto simp: entra_en_transaccion_def verificar_sesion_checkout_def bloque_de_def
        atomic_def Let_def split: prod.splits sum.splits)

lemma verificar_200:
  assumes "verificar_sesion_checkout retrieve json_loads session_id s = (r, s')"
      and "codigo r = 200"
  shows "\<exists>ses centavos items_data.
           entra_en_transaccion retrieve json_loads session_id ses centavos items_data
           \<and> bloque_de ses centavos items_data s = (Inr (), s')"
  using assms
  by (auto simp: entra_en_transaccion_def verificar_sesion_checkout_def bloque_de_def
        atomic_def Let_def
        split: if_splits sum.splits option.splits prod.splits fallo_retrieve.splits)

lemma verificar_no_200:
  assumes "verificar_sesion_checkout retrieve json_loads session_id s = (r, s')"
      and "codigo r \<noteq> 200"
  shows "s' = s"
  using assms
  by (auto simp: verificar_sesion_checkout_def Let_def atomic_def
           split: if_splits sum.splits option.splits prod.splits fallo_retrieve.splits)

lemma materializar_adelante:
  assumes cl: "clientes s uid = Some cl"
      and ti: "tiendas s tid = Some ti"
      and un: "count_list (tienda_clientes s) (tid, uid) \<le> 1"
      and va: "list_all (linea_valida (productos s)) items"
  shows "(quantize_001 (total_recalculado s items) \<noteq> quantize_001 tot \<longrightarrow>
            fst (materializar uid tid dir (Items items) pid tot s)
              = Inl (DiscrepanciaTotal tot (total_recalculado s items)))
       \<and> (quantize_001 (total_recalculado s items) = quantize_001 tot \<longrightarrow>
            (\<exists>s'. materializar uid tid dir (Items items) pid tot s = (Inr (), s')))"
proof -
  define s1 where "s1 =
    (if count_list (tienda_clientes s) (tid, uid) = 0
     then s\<lparr>tienda_clientes := tienda_clientes s @ [(tid, uid)]\<rparr> else s)
      \<lparr>carritos := carritos s @
         [\<lparr>carrito_cliente = uid, carrito_tienda = tid, carrito_total = tot\<rparr>]\<rparr>"
  have p1: "productos s1 = productos s" by (simp add: s1_def)
  from va have "list_all (linea_valida (productos s1)) items" by (simp add: p1)
  from procesar_items_validas [OF this, of "length (carritos s)" 0 "[]" "[]"]
  obtain dets prods where pr: "procesar_items (length (carritos s)) items (0, [], []) s1 =
      (Inr (subtotal_catalogo (productos s) items, dets, prods), s1)"
    by (auto simp: p1)
  have pre: "luego (cliente_get uid) (\<lambda>cliente.
     luego (tienda_get tid) (\<lambda>tienda.
     luego (tienda_cliente_get_or_create tid uid) (\<lambda>fue_creado.
     luego (carrito_create \<lparr>carrito_cliente = uid, carrito_tienda = tid,
                            carrito_total = tot\<rparr>) (\<lambda>nuevo_carrito. f cliente tienda nuevo_carrito)))) s
     = f cl ti (length (carritos s)) s1" for f :: "cliente \<Rightarrow> tienda \<Rightarrow> nat \<Rightarrow> unit orm"
    using cl ti un
    by (auto simp: luego_def cliente_get_def tienda_get_def tienda_cliente_get_or_create_def
          carrito_create_def s1_def Let_def)
  show ?thesis
    unfolding materializar_def pre
    using pr
    by (auto simp: luego_def lanzar_def total_recalculado_def Let_def venta_create_def
          pago_create_def envio_create_def detalle_carrito_bulk_create_def
          detalle_venta_bulk_create_def producto_bulk_update_stock_def
          cliente_save_puntos_def log_action_def
          split: option.splits)
qed

lemmas demo_defs = verificar_sesion_checkout_def truthy_def texto_def sesion_demo_def
  db_demo_def atomic_def ops_defs producto_select_for_update_get_def Let_def
  calcular_costo_envio_def porcentaje_envio_def quantize_001_def

subsection \<open>Atomicity of the confirmation\<close>



subsection \<open>The comparison of the totals\<close>

text \<open>
  Claim C2. At confirmation the total is derived again from the catalogue as it is
  (the sum of current price times quantity over the lines, plus the shipping cost of
  that sum) and compared with the amount the processor captured, both rounded to two
  decimals. For every run that reaches the comparison with the two amounts different,
  the view answers 500 with the discrepancy error and the database is unchanged;
  and every run answered 200 reached the comparison with the two amounts equal, so a
  mismatch is never accepted.
\<close>

theorem discrepancia_aborta:
  "(entra_en_transaccion retrieve json_loads session_id ses centavos (Items items)
      \<and> llega_a_la_comparacion s ses items
      \<and> quantize_001 (total_recalculado s items) \<noteq> quantize_001 (of_int centavos / 100)
     \<longrightarrow> verificar_sesion_checkout retrieve json_loads session_id s =
           (\<lparr>codigo = 500,
             contenido = ErrorProcesarPedido
               (DiscrepanciaTotal (of_int centavos / 100) (total_recalculado s items))\<rparr>, s))
   \<and> (codigo (fst (verificar_sesion_checkout retrieve json_loads session_id s)) = 200
     \<longrightarrow> (\<exists>ses centavos items.
            entra_en_transaccion retrieve json_loads session_id ses centavos (Items items)
            \<and> llega_a_la_comparacion s ses items
            \<and> quantize_001 (total_recalculado s items) = quantize_001 (of_int centavos / 100)))"
proof -
  let ?run = "verificar_sesion_checkout retrieve json_loads session_id s"
  have a: "?run =
           (\<lparr>codigo = 500,
             contenido = ErrorProcesarPedido
               (DiscrepanciaTotal (of_int centavos / 100) (total_recalculado s items))\<rparr>, s)"
    if e: "entra_en_transaccion retrieve json_loads session_id ses centavos (Items items)"
      and l: "llega_a_la_comparacion s ses items"
      and d: "quantize_001 (total_recalculado s items) \<noteq> quantize_001 (of_int centavos / 100)"
  proof -
    from l obtain cl ti where cl: "clientes s (texto (metadata ses ''user_id'')) = Some cl"
      and ti: "tiendas s (texto (metadata ses ''tienda_id'')) = Some ti"
      and un: "count_list (tienda_clientes s)
            (texto (metadata ses ''tienda_id''), texto (metadata ses ''user_id'')) \<le> 1"
      and va: "list_all (linea_valida (productos s)) items"
      by (auto simp: llega_a_la_comparacion_def)
    from materializar_adelante [OF cl ti un va] d
    have "fst (bloque_de ses centavos (Items items) s)
            = Inl (DiscrepanciaTotal (of_int centavos / 100) (total_recalculado s items))"
      unfolding bloque_de_def by blast
    then show ?thesis
      unfolding verificar_en_transaccion [OF e]
      by (auto split: prod.splits sum.splits)
  qed
  have b: "\<exists>ses centavos items.
            entra_en_transaccion retrieve json_loads session_id ses centavos (Items items)
            \<and> llega_a_la_comparacion s ses items
            \<and> quantize_001 (total_recalculado s items) = quantize_001 (of_int centavos / 100)"
    if ok: "codigo (fst ?run) = 200"
  proof -
    have "?run = (fst ?run, snd ?run)" by simp
    from verificar_200 [OF this ok] obtain ses centavos items_data where
      e: "entra_en_transaccion retrieve json_loads session_id ses centavos items_data"
      and m: "bloque_de ses centavos items_data s = (Inr (), snd ?run)" by blast
    from materializar_exito [OF m [unfolded bloque_de_def]]
    obtain cl ti items sub dets prods where
      cl: "clientes s (texto (metadata ses ''user_id'')) = Some cl"
      and ti: "tiendas s (texto (metadata ses ''tienda_id'')) = Some ti"
      and un: "count_list (tienda_clientes s)
            (texto (metadata ses ''tienda_id''), texto (metadata ses ''user_id'')) \<le> 1"
      and it: "items_data = Items items"
      and pr: "fst (procesar_items (length (carritos s)) items (0, [], []) s) = Inr (sub, dets, prods)"
      and q: "quantize_001 (sub + calcular_costo_envio sub) = quantize_001 (of_int centavos / 100)"
      by blast
    from procesar_items_Inr [OF pr]
    have va: "list_all (linea_valida (productos s)) items"
      and sub: "sub = subtotal_catalogo (productos s) items" by simp_all
    have "llega_a_la_comparacion s ses items"
      using cl ti un va by (simp add: llega_a_la_comparacion_def)
    moreover have "quantize_001 (total_recalculado s items) = quantize_001 (of_int centavos / 100)"
      using q sub by (simp add: total_recalculado_def Let_def)
    ultimately show ?thesis using e it by blast
  qed
  show ?thesis using a b by blast
qed

theorem discrepancia_aborta_witness:
  "verificar_sesion_checkout (\<lambda>_. Inr (sesion_demo 2200))
          (\<lambda>_. Some (Items [Item (Some 1) (Some 2)])) (Some ''cs_1'') db_demo
     = (\<lparr>codigo = 500,
         contenido = ErrorProcesarPedido (DiscrepanciaTotal 22 23)\<rparr>, db_demo)"
proof -
  have e: "entra_en_transaccion (\<lambda>_. Inr (sesion_demo 2200))
          (\<lambda>_. Some (Items [Item (Some 1) (Some 2)])) (Some ''cs_1'') (sesion_demo 2200) 2200
          (Items [Item (Some 1) (Some 2)])"
    by (simp add: entra_en_transaccion_def truthy_def texto_def sesion_demo_def)
  have l: "llega_a_la_comparacion db_demo (sesion_demo 2200) [Item (Some 1) (Some 2)]"
    by (simp add: llega_a_la_comparacion_def texto_def sesion_demo_def db_demo_def)
  have t: "total_recalculado db_demo [Item (Some 1) (Some 2)] = 23"
    by (simp add: total_recalculado_def db_demo_def calcular_costo_envio_def
          porcentaje_envio_def quantize_001_def Let_def)
  have d: "quantize_001 (total_recalculado db_demo [Item (Some 1) (Some 2)])
             \<noteq> quantize_001 (of_int 2200 / 100)"
    unfolding t by (simp add: quantize_001_def Let_def)
  from discrepancia_aborta [of "\<lambda>_. Inr (sesion_demo 2200)"
      "\<lambda>_. Some (Items [Item (Some 1) (Some 2)])" "Some ''cs_1''" "sesion_demo 2200" 2200
      "[Item (Some 1) (Some 2)]" db_demo] e l d
  show ?thesis unfolding t by simp
qed

subsection \<open>Stock under repeated lines\<close>

text \<open>
  Claim C3 asks that each processed line decrements the stock by its quantity, after
  a check of the stock against it. With two lines for the same product the code does
  not: each line reads the stock from the database, where no decrement has been saved
  yet, and \<open>bulk_update\<close> writes one of the decremented copies. Product 1 has five in
  stock; the two lines of three units each pass the check, the sale is committed with
  both lines (six units), and the stock left is two.
\<close>

theorem lineas_repetidas_sobreventa:
  "fst (verificar_sesion_checkout (\<lambda>_. Inr (sesion_demo 6900))
          (\<lambda>_. Some (Items [Item (Some 1) (Some 3), Item (Some 1) (Some 3)]))
          (Some ''cs_1'') db_demo) = \<lparr>codigo = 200, contenido = Exito\<rparr>
   \<and> map_option stock (productos db_demo 1) = Some 5
   \<and> map dv_cantidad (detalles_venta (snd (verificar_sesion_checkout
          (\<lambda>_. Inr (sesion_demo 6900))
          (\<lambda>_. Some (Items [Item (Some 1) (Some 3), Item (Some 1) (Some 3)]))
          (Some ''cs_1'') db_demo))) = [3, 3]
   \<and> map_option stock (productos (snd (verificar_sesion_checkout
          (\<lambda>_. Inr (sesion_demo 6900))
          (\<lambda>_. Some (Items [Item (Some 1) (Some 3), Item (Some 1) (Some 3)]))
          (Some ''cs_1'') db_demo)) 1) = Some 2"
  by (simp add: demo_defs)

text \<open>
  What the loop does guarantee. Every object it hands to \<open>bulk_update\<close> has a stock that
  is not negative, so a confirmation keeps every stock non-negative when it was so
  before; and in a cart whose lines name different products, each product of a line
  ends with its stock lowered by exactly the quantity of the line.
\<close>

lemma procesar_items_objetos:
  assumes "fst (procesar_items c items (sub0, d0, p0) s) = Inr (sub, dets, prods)"
  shows "prods = p0 @ objetos_descontados (productos s) items"
  using assms
proof (induction items arbitrary: sub0 d0 p0)
  case Nil
  then show ?case by simp
next
  case (Cons it items)
  show ?case
  proof (cases it)
    case NoEsDict
    with Cons.prems show ?thesis by simp
  next
    case (Item pko qo)
    from Cons.prems Item obtain pk q p where pk: "pko = Some pk" and qq: "qo = Some q"
      and p: "productos s pk = Some p" and q: "q \<le> stock p"
      by (auto simp: producto_select_for_update_get_def Let_def
               split: option.splits if_splits)
    from Cons.prems Item pk qq p q
    have "fst (procesar_items c items (sub0 + precio p * of_int q,
              d0 @ [\<lparr>dc_carrito = c, dc_producto = pk, dc_cantidad = q, dc_precio_unitario = precio p\<rparr>],
              p0 @ [(pk, p\<lparr>stock := stock p - q\<rparr>)]) s) = Inr (sub, dets, prods)"
      by (simp add: producto_select_for_update_get_def Let_def)
    from Cons.IH [OF this] show ?thesis
      using Item pk qq p by simp
  qed
qed

lemma objetos_descontados_no_negativos:
  assumes "list_all (linea_valida tabla) items"
      and "(pk, obj) \<in> set (objetos_descontados tabla items)"
  shows "0 \<le> stock obj"
  using assms
proof (induction items)
  case Nil
  then show ?case by simp
next
  case (Cons it items)
  from Cons.prems(1) obtain k q p where it: "it = Item (Some k) (Some q)"
    and p: "tabla k = Some p" and q: "q \<le> stock p"
    and rest: "list_all (linea_valida tabla) items"
    by (cases "(tabla, it)" rule: linea_valida.cases) (auto split: option.splits)
  from Cons.prems(2) it p
  have "(pk, obj) = (k, p\<lparr>stock := stock p - q\<rparr>) \<or> (pk, obj) \<in> set (objetos_descontados tabla items)"
    by auto
  then show ?case
  proof
    assume "(pk, obj) = (k, p\<lparr>stock := stock p - q\<rparr>)"
    with q show ?thesis by auto
  next
    assume "(pk, obj) \<in> set (objetos_descontados tabla items)"
    with Cons.IH [OF rest] show ?thesis .
  qed
qed

lemma bulk_update_no_negativo:
  assumes "\<And>pk obj. (pk, obj) \<in> set objs \<Longrightarrow> 0 \<le> stock obj"
      and "\<And>pk p. tabla pk = Some p \<Longrightarrow> 0 \<le> stock p"
      and "foldr (\<lambda>(pk, obj) tabla.
                   case tabla pk of
                     None \<Rightarrow> tabla
                   | Some fila \<Rightarrow> tabla(pk \<mapsto> fila\<lparr>stock := stock obj\<rparr>))
                objs tabla k = Some p"
  shows "0 \<le> stock p"
  using assms
proof (induction objs arbitrary: k p)
  case Nil
  then show ?case by simp
next
  case (Cons a objs)
  obtain pk obj where a: "a = (pk, obj)" by (cases a)
  let ?t = "foldr (\<lambda>(pk, obj) tabla.
                   case tabla pk of
                     None \<Rightarrow> tabla
                   | Some fila \<Rightarrow> tabla(pk \<mapsto> fila\<lparr>stock := stock obj\<rparr>))
                objs tabla"
  have ih: "\<And>k p. ?t k = Some p \<Longrightarrow> 0 \<le> stock p"
    using Cons.IH Cons.prems(1,2) by (meson list.set_intros(2))
  have o: "0 \<le> stock obj" using Cons.prems(1) [of pk obj] a by simp
  from Cons.prems(3) a show ?case
    using ih o by (auto split: option.splits if_splits)
qed

lemma stock_no_negativo_preservado:
  assumes run: "verificar_sesion_checkout retrieve json_loads session_id s = (r, s')"
      and inv: "\<And>pk p. productos s pk = Some p \<Longrightarrow> 0 \<le> stock p"
      and k: "productos s' k = Some p"
  shows "0 \<le> stock p"
proof (cases "codigo r = 200")
  case False
  with verificar_no_200 [OF run] inv k show ?thesis by simp
next
  case True
  from verificar_200 [OF run True] obtain ses centavos items_data where
    m: "bloque_de ses centavos items_data s = (Inr (), s')" by blast
  from materializar_exito [OF m [unfolded bloque_de_def]]
  obtain items sub dets prods where
    pr: "fst (procesar_items (length (carritos s)) items (0, [], []) s) = Inr (sub, dets, prods)"
    and up: "productos s' =
           foldr (\<lambda>(pk, obj) tabla.
                   case tabla pk of
                     None \<Rightarrow> tabla
                   | Some fila \<Rightarrow> tabla(pk \<mapsto> fila\<lparr>stock := stock obj\<rparr>))
                prods (productos s)"
    by blast
  from procesar_items_Inr [OF pr] have va: "list_all (linea_valida (productos s)) items" by simp
  from procesar_items_objetos [OF pr]
  have prods: "prods = objetos_descontados (productos s) items" by simp
  have objs: "\<And>pk obj. (pk, obj) \<in> set prods \<Longrightarrow> 0 \<le> stock obj"
    unfolding prods using objetos_descontados_no_negativos [OF va] by blast
  from bulk_update_no_negativo [OF objs inv k [unfolded up]] show ?thesis by simp
qed


lemma bulk_update_otra_clave:
  assumes "k \<notin> fst ` set objs"
  shows "foldr (\<lambda>(pk, obj) tabla.
                   case tabla pk of
                     None \<Rightarrow> tabla
                   | Some fila \<Rightarrow> tabla(pk \<mapsto> fila\<lparr>stock := stock obj\<rparr>))
                objs tabla k = tabla k"
  using assms
  by (induction objs) (auto split: option.splits prod.splits)

lemma bulk_update_claves_distintas:
  assumes "distinct (map fst objs)"
      and "(k, obj) \<in> set objs"
      and "tabla k = Some fila"
  shows "foldr (\<lambda>(pk, obj) tabla.
                   case tabla pk of
                     None \<Rightarrow> tabla
                   | Some fila \<Rightarrow> tabla(pk \<mapsto> fila\<lparr>stock := stock obj\<rparr>))
                objs tabla k = Some (fila\<lparr>stock := stock obj\<rparr>)"
  using assms
proof (induction objs)
  case Nil
  then show ?case by simp
next
  case (Cons a objs)
  obtain pk ob where a: "a = (pk, ob)" by (cases a)
  show ?case
  proof (cases "pk = k")
    case True
    with Cons.prems a have "k \<notin> fst ` set objs" by auto
    from bulk_update_otra_clave [OF this, of tabla] Cons.prems(3)
    have t: "foldr (\<lambda>(pk, obj) tabla.
                   case tabla pk of
                     None \<Rightarrow> tabla
                   | Some fila \<Rightarrow> tabla(pk \<mapsto> fila\<lparr>stock := stock obj\<rparr>))
                objs tabla k = Some fila" by simp
    from Cons.prems a True have "obj = ob"
      by (auto simp: image_iff)
    with t a True show ?thesis by simp
  next
    case False
    with Cons.prems a have d: "distinct (map fst objs)" and i: "(k, obj) \<in> set objs" by auto
    from Cons.IH [OF d i Cons.prems(3)] a False show ?thesis
      by (auto split: option.splits)
  qed
qed

lemma descuento_exacto_sin_repetidos:
  assumes run: "verificar_sesion_checkout retrieve json_loads session_id s = (r, s')"
      and ok: "codigo r = 200"
      and e: "entra_en_transaccion retrieve json_loads session_id ses centavos (Items items)"
      and d: "distinct (map fst (objetos_descontados (productos s) items))"
      and l: "(k, obj) \<in> set (objetos_descontados (productos s) items)"
      and f: "productos s k = Some fila"
  shows "productos s' k = Some (fila\<lparr>stock := stock obj\<rparr>)"
proof -
  from verificar_200 [OF run ok] obtain ses' centavos' items_data' where
    e': "entra_en_transaccion retrieve json_loads session_id ses' centavos' items_data'"
    and m: "bloque_de ses' centavos' items_data' s = (Inr (), s')" by blast
  from e e' have same: "items_data' = Items items" by (simp add: entra_en_transaccion_def)
  from materializar_exito [OF m [unfolded bloque_de_def same]]
  obtain sub dets prods where
    pr: "fst (procesar_items (length (carritos s)) items (0, [], []) s) = Inr (sub, dets, prods)"
    and up: "productos s' =
           foldr (\<lambda>(pk, obj) tabla.
                   case tabla pk of
                     None \<Rightarrow> tabla
                   | Some fila \<Rightarrow> tabla(pk \<mapsto> fila\<lparr>stock := stock obj\<rparr>))
                prods (productos s)"
    by auto
  from procesar_items_objetos [OF pr]
  have prods: "prods = objetos_descontados (productos s) items" by simp
  show ?thesis
    unfolding up prods by (rule bulk_update_claves_distintas [where tabla = "productos s", OF d l f])
qed

subsection \<open>Loyalty points\<close>

text \<open>
  Claim C7. For every run of the view: when the answer is 200, the points of the
  session's customer are the points before plus 0.0005 (0.05%) of the captured total,
  no other customer changes, and with a captured total that is not negative no
  balance goes down; when the answer is not 200, every balance is as before.
\<close>

theorem puntos_por_compra:
  assumes "verificar_sesion_checkout retrieve json_loads session_id s = (r, s')"
  shows "(codigo r = 200 \<longrightarrow>
           (\<exists>ses centavos cl.
              retrieve (texto session_id) = Inr ses
              \<and> amount_total ses = Some centavos
              \<and> clientes s (texto (metadata ses ''user_id'')) = Some cl
              \<and> clientes s' = (clientes s)(texto (metadata ses ''user_id'') \<mapsto>
                    cl\<lparr>puntos_acumulados :=
                         puntos_acumulados cl + of_int centavos / 100 * (5 / 10000)\<rparr>)
              \<and> (0 \<le> centavos \<longrightarrow>
                   (\<forall>u c. clientes s u = Some c \<longrightarrow>
                      (\<exists>c'. clientes s' u = Some c'
                            \<and> puntos_acumulados c \<le> puntos_acumulados c')))))
       \<and> (codigo r \<noteq> 200 \<longrightarrow> clientes s' = clientes s)"
proof -
  have a: "\<exists>ses centavos cl.
              retrieve (texto session_id) = Inr ses
              \<and> amount_total ses = Some centavos
              \<and> clientes s (texto (metadata ses ''user_id'')) = Some cl
              \<and> clientes s' = (clientes s)(texto (metadata ses ''user_id'') \<mapsto>
                    cl\<lparr>puntos_acumulados :=
                         puntos_acumulados cl + of_int centavos / 100 * (5 / 10000)\<rparr>)
              \<and> (0 \<le> centavos \<longrightarrow>
                   (\<forall>u c. clientes s u = Some c \<longrightarrow>
                      (\<exists>c'. clientes s' u = Some c'
                            \<and> puntos_acumulados c \<le> puntos_acumulados c')))"
    if ok: "codigo r = 200"
  proof -
    from verificar_200 [OF assms ok] obtain ses centavos items_data where
      e: "entra_en_transaccion retrieve json_loads session_id ses centavos items_data"
      and m: "bloque_de ses centavos items_data s = (Inr (), s')" by blast
    from materializar_exito [OF m [unfolded bloque_de_def]]
    obtain cl where
      cl: "clientes s (texto (metadata ses ''user_id'')) = Some cl"
      and up: "clientes s' = (clientes s)(texto (metadata ses ''user_id'') \<mapsto>
                    cl\<lparr>puntos_acumulados :=
                         puntos_acumulados cl + of_int centavos / 100 * (5 / 10000)\<rparr>)"
      by blast
    have mono: "\<exists>c'. clientes s' u = Some c' \<and> puntos_acumulados c \<le> puntos_acumulados c'"
      if pos: "0 \<le> centavos" and c: "clientes s u = Some c" for u c
    proof (cases "u = texto (metadata ses ''user_id'')")
      case True
      have "0 \<le> (of_int centavos :: rat) / 100 * (5 / 10000)" using pos by simp
      with True c cl show ?thesis unfolding up by simp
    next
      case False
      with c show ?thesis unfolding up by simp
    qed
    from e have "retrieve (texto session_id) = Inr ses" "amount_total ses = Some centavos"
      by (simp_all add: entra_en_transaccion_def)
    with cl up mono show ?thesis by blast
  qed
  have b: "codigo r \<noteq> 200 \<longrightarrow> clientes s' = clientes s"
    using verificar_no_200 [OF assms] by blast
  show ?thesis using a b by blast
qed

theorem puntos_por_compra_witness:
  "codigo (fst (verificar_sesion_checkout (\<lambda>_. Inr (sesion_demo 2300))
          (\<lambda>_. Some (Items [Item (Some 1) (Some 2)])) (Some ''cs_1'') db_demo)) = 200
   \<and> map_option puntos_acumulados (clientes (snd (verificar_sesion_checkout
          (\<lambda>_. Inr (sesion_demo 2300))
          (\<lambda>_. Some (Items [Item (Some 1) (Some 2)])) (Some ''cs_1'') db_demo)) ''7'')
       = Some (23 * (5 / 10000))"
proof -
  let ?run = "verificar_sesion_checkout (\<lambda>_. Inr (sesion_demo 2300))
          (\<lambda>_. Some (Items [Item (Some 1) (Some 2)])) (Some ''cs_1'') db_demo"
  have ok: "codigo (fst ?run) = 200" by (simp add: demo_defs)
  have "?run = (fst ?run, snd ?run)" by simp
  from puntos_por_compra [OF this] ok
  obtain ses centavos cl where
    "(Inr (sesion_demo 2300) :: fallo_retrieve + session) = Inr ses"
    "amount_total ses = Some centavos"
    "clientes db_demo (texto (metadata ses ''user_id'')) = Some cl"
    "clientes (snd ?run) = (clientes db_demo)(texto (metadata ses ''user_id'') \<mapsto>
                    cl\<lparr>puntos_acumulados :=
                         puntos_acumulados cl + of_int centavos / 100 * (5 / 10000)\<rparr>)"
    by blast
  then have "map_option puntos_acumulados (clientes (snd ?run) ''7'') = Some (23 * (5 / 10000))"
    by (auto simp: sesion_demo_def db_demo_def texto_def split: if_splits)
  with ok show ?thesis by blast
qed

subsection \<open>The association of shop and customer\<close>

lemma count_list_distinct:
  "distinct xs \<Longrightarrow> count_list xs x = (if x \<in> set xs then 1 else 0)"
  by (induction xs) auto

lemma get_or_create_distinct:
  assumes "distinct (tienda_clientes s)"
  shows "tienda_cliente_get_or_create tid uid s =
           (Inr ((tid, uid) \<notin> set (tienda_clientes s)),
            if (tid, uid) \<in> set (tienda_clientes s) then s
            else s\<lparr>tienda_clientes := tienda_clientes s @ [(tid, uid)]\<rparr>)"
  using count_list_distinct [OF assms, of "(tid, uid)"]
  by (simp add: tienda_cliente_get_or_create_def Let_def)

lemma verificar_tienda_clientes:
  assumes run: "verificar_sesion_checkout retrieve json_loads session_id s = (r, s')"
  shows "tienda_clientes s' = tienda_clientes s
         \<or> (\<exists>ses centavos items_data.
              entra_en_transaccion retrieve json_loads session_id ses centavos items_data
              \<and> codigo r = 200
              \<and> count_list (tienda_clientes s)
                   (texto (metadata ses ''tienda_id''), texto (metadata ses ''user_id'')) = 0
              \<and> tienda_clientes s' = tienda_clientes s @
                   [(texto (metadata ses ''tienda_id''), texto (metadata ses ''user_id''))])"
proof (cases "codigo r = 200")
  case False
  with verificar_no_200 [OF run] show ?thesis by simp
next
  case True
  from verificar_200 [OF run True] obtain ses centavos items_data where
    e: "entra_en_transaccion retrieve json_loads session_id ses centavos items_data"
    and m: "bloque_de ses centavos items_data s = (Inr (), s')" by blast
  from materializar_exito [OF m [unfolded bloque_de_def]]
  have "tienda_clientes s' =
           (if count_list (tienda_clientes s)
                 (texto (metadata ses ''tienda_id''), texto (metadata ses ''user_id'')) = 0
            then tienda_clientes s @
                 [(texto (metadata ses ''tienda_id''), texto (metadata ses ''user_id''))]
            else tienda_clientes s)"
    by blast
  with e True show ?thesis by (cases "count_list (tienda_clientes s)
                 (texto (metadata ses ''tienda_id''), texto (metadata ses ''user_id'')) = 0") auto
qed

lemma verificar_distinct:
  assumes run: "verificar_sesion_checkout retrieve json_loads session_id s = (r, s')"
      and d: "distinct (tienda_clientes s)"
  shows "distinct (tienda_clientes s')"
  using verificar_tienda_clientes [OF run] d
  by (auto simp: count_list_0_iff)

lemma verificar_asociada:
  assumes run: "verificar_sesion_checkout retrieve json_loads session_id s = (r, s')"
      and ok: "codigo r = 200"
      and e: "entra_en_transaccion retrieve json_loads session_id ses centavos items_data"
  shows "(texto (metadata ses ''tienda_id''), texto (metadata ses ''user_id''))
           \<in> set (tienda_clientes s')"
proof -
  from verificar_200 [OF run ok] obtain ses' centavos' items_data' where
    e': "entra_en_transaccion retrieve json_loads session_id ses' centavos' items_data'"
    and m: "bloque_de ses' centavos' items_data' s = (Inr (), s')" by blast
  from e e' have same: "ses' = ses" by (simp add: entra_en_transaccion_def)
  from materializar_exito [OF m [unfolded bloque_de_def]]
  have "tienda_clientes s' =
           (if count_list (tienda_clientes s)
                 (texto (metadata ses ''tienda_id''), texto (metadata ses ''user_id'')) = 0
            then tienda_clientes s @
                 [(texto (metadata ses ''tienda_id''), texto (metadata ses ''user_id''))]
            else tienda_clientes s)"
    unfolding same by blast
  then show ?thesis
    by (auto simp: count_list_0_iff split: if_splits)
qed

lemma verificar_cuenta:
  assumes run: "verificar_sesion_checkout retrieve json_loads session_id s = (r, s')"
  shows "count_list (tienda_clientes s') x \<le> max 1 (count_list (tienda_clientes s) x)"
  using verificar_tienda_clientes [OF run] by auto

text \<open>
  Claim C8. The confirmation run twice on the same request never creates a duplicate
  association: after each run every pair of shop and customer occurs at most once, or
  no more often than it did before the first run; a table without duplicates stays so;
  and when the first run is answered 200 the second adds nothing. On a table without
  duplicates the step itself never raises: for every shop and customer
  \<open>get_or_create\<close> returns, creating the row exactly when it was absent, after which
  one row exists and a second call finds it.
\<close>

theorem asociacion_idempotente:
  assumes run1: "verificar_sesion_checkout retrieve json_loads session_id s = (r1, s1)"
      and run2: "verificar_sesion_checkout retrieve json_loads session_id s1 = (r2, s2)"
  shows "(\<forall>x. count_list (tienda_clientes s1) x \<le> max 1 (count_list (tienda_clientes s) x)
            \<and> count_list (tienda_clientes s2) x \<le> max 1 (count_list (tienda_clientes s) x))
       \<and> (distinct (tienda_clientes s) \<longrightarrow>
            distinct (tienda_clientes s1) \<and> distinct (tienda_clientes s2))
       \<and> (codigo r1 = 200 \<longrightarrow> tienda_clientes s2 = tienda_clientes s1)
       \<and> (distinct (tienda_clientes s) \<longrightarrow>
            (\<forall>tid uid. \<exists>s'.
               tienda_cliente_get_or_create tid uid s
                 = (Inr ((tid, uid) \<notin> set (tienda_clientes s)), s')
               \<and> count_list (tienda_clientes s') (tid, uid) = 1
               \<and> tienda_cliente_get_or_create tid uid s' = (Inr False, s')))"
proof -
  have cnt: "count_list (tienda_clientes s1) x \<le> max 1 (count_list (tienda_clientes s) x)
            \<and> count_list (tienda_clientes s2) x \<le> max 1 (count_list (tienda_clientes s) x)"
    for x
    using verificar_cuenta [OF run1, of x] verificar_cuenta [OF run2, of x] by simp
  have dd: "distinct (tienda_clientes s1) \<and> distinct (tienda_clientes s2)"
    if d: "distinct (tienda_clientes s)"
  proof -
    have d1: "distinct (tienda_clientes s1)" using verificar_distinct [OF run1 d] .
    have d2: "distinct (tienda_clientes s2)" using verificar_distinct [OF run2 d1] .
    show ?thesis using d1 d2 by simp
  qed
  have same: "tienda_clientes s2 = tienda_clientes s1" if ok: "codigo r1 = 200"
  proof -
    from verificar_200 [OF run1 ok] obtain ses centavos items_data where
      e: "entra_en_transaccion retrieve json_loads session_id ses centavos items_data"
      by blast
    from verificar_asociada [OF run1 ok e]
    have inn: "(texto (metadata ses ''tienda_id''), texto (metadata ses ''user_id''))
           \<in> set (tienda_clientes s1)" .
    from verificar_tienda_clientes [OF run2] show ?thesis
    proof
      assume "tienda_clientes s2 = tienda_clientes s1" then show ?thesis .
    next
      assume "\<exists>ses centavos items_data.
              entra_en_transaccion retrieve json_loads session_id ses centavos items_data
              \<and> codigo r2 = 200
              \<and> count_list (tienda_clientes s1)
                   (texto (metadata ses ''tienda_id''), texto (metadata ses ''user_id'')) = 0
              \<and> tienda_clientes s2 = tienda_clientes s1 @
                   [(texto (metadata ses ''tienda_id''), texto (metadata ses ''user_id''))]"
      then obtain ses' centavos' items_data' where
        e': "entra_en_transaccion retrieve json_loads session_id ses' centavos' items_data'"
        and z: "count_list (tienda_clientes s1)
                   (texto (metadata ses' ''tienda_id''), texto (metadata ses' ''user_id'')) = 0"
        by blast
      from e e' have "ses' = ses" by (simp add: entra_en_transaccion_def)
      with z inn show ?thesis by (simp add: count_list_0_iff)
    qed
  qed
  have step: "\<exists>s'. tienda_cliente_get_or_create tid uid s
               = (Inr ((tid, uid) \<notin> set (tienda_clientes s)), s')
             \<and> count_list (tienda_clientes s') (tid, uid) = 1
             \<and> tienda_cliente_get_or_create tid uid s' = (Inr False, s')"
    if d: "distinct (tienda_clientes s)" for tid uid
  proof -
    define s' where "s' = (if (tid, uid) \<in> set (tienda_clientes s) then s
            else s\<lparr>tienda_clientes := tienda_clientes s @ [(tid, uid)]\<rparr>)"
    have g: "tienda_cliente_get_or_create tid uid s
               = (Inr ((tid, uid) \<notin> set (tienda_clientes s)), s')"
      unfolding s'_def by (rule get_or_create_distinct [OF d])
    have ds: "distinct (tienda_clientes s')" and ins: "(tid, uid) \<in> set (tienda_clientes s')"
      using d by (auto simp: s'_def)
    have c: "count_list (tienda_clientes s') (tid, uid) = 1"
      using count_list_distinct [OF ds, of "(tid, uid)"] ins by simp
    have g2: "tienda_cliente_get_or_create tid uid s' = (Inr False, s')"
      using get_or_create_distinct [OF ds, of tid uid] ins by simp
    show ?thesis using g c g2 by blast
  qed
  show ?thesis using cnt dd same step by blast
qed

theorem asociacion_idempotente_witness:
  "codigo (fst (verificar_sesion_checkout (\<lambda>_. Inr (sesion_demo 2300))
          (\<lambda>_. Some (Items [Item (Some 1) (Some 2)])) (Some ''cs_1'') db_demo)) = 200
   \<and> tienda_clientes (snd (verificar_sesion_checkout (\<lambda>_. Inr (sesion_demo 2300))
          (\<lambda>_. Some (Items [Item (Some 1) (Some 2)])) (Some ''cs_1'') db_demo))
       = [(''3'', ''7'')]
   \<and> tienda_clientes (snd (verificar_sesion_checkout (\<lambda>_. Inr (sesion_demo 2300))
          (\<lambda>_. Some (Items [Item (Some 1) (Some 2)])) (Some ''cs_1'')
          (snd (verificar_sesion_checkout (\<lambda>_. Inr (sesion_demo 2300))
             (\<lambda>_. Some (Items [Item (Some 1) (Some 2)])) (Some ''cs_1'') db_demo))))
       = [(''3'', ''7'')]"
proof -
  let ?v = "verificar_sesion_checkout (\<lambda>_. Inr (sesion_demo 2300))
          (\<lambda>_. Some (Items [Item (Some 1) (Some 2)])) (Some ''cs_1'')"
  have r1: "?v db_demo = (fst (?v db_demo), snd (?v db_demo))" by simp
  have r2: "?v (snd (?v db_demo)) = (fst (?v (snd (?v db_demo))), snd (?v (snd (?v db_demo))))"
    by simp
  have ok: "codigo (fst (?v db_demo)) = 200" by (simp add: demo_defs)
  have t1: "tienda_clientes (snd (?v db_demo)) = [(''3'', ''7'')]" by (simp add: demo_defs)
  from asociacion_idempotente [OF r1 r2] ok
  have "tienda_clientes (snd (?v (snd (?v db_demo)))) = tienda_clientes (snd (?v db_demo))"
    by blast
  with ok t1 show ?thesis by simp
qed

subsection \<open>Failures before the transaction\<close>

text \<open>
  Claim C9. A request without \<open>session_id\<close>, or whose session is not \<open>complete\<close>, or
  lacks the user id, the shop id, the delivery address, the items payload or the
  payment intent, or whose items payload is not valid JSON, is answered with an error
  (400 or 500, never the success body) and the database is unchanged.
\<close>

theorem fallos_previos_sin_cambios:
  assumes "\<not> truthy session_id
     \<or> (\<exists>ses. retrieve (texto session_id) = Inr ses
          \<and> (status ses \<noteq> ''complete''
             \<or> \<not> truthy (metadata ses ''user_id'')
             \<or> \<not> truthy (metadata ses ''tienda_id'')
             \<or> \<not> truthy (metadata ses ''direccion_entrega'')
             \<or> \<not> truthy (metadata ses ''items_data'')
             \<or> \<not> truthy (payment_intent ses)
             \<or> json_loads (texto (metadata ses ''items_data'')) = None))"
  shows "(codigo (fst (verificar_sesion_checkout retrieve json_loads session_id s)) = 400
          \<or> codigo (fst (verificar_sesion_checkout retrieve json_loads session_id s)) = 500)
       \<and> contenido (fst (verificar_sesion_checkout retrieve json_loads session_id s)) \<noteq> Exito
       \<and> snd (verificar_sesion_checkout retrieve json_loads session_id s) = s"
  using assms
  by (auto simp: verificar_sesion_checkout_def Let_def
           split: if_splits sum.splits option.splits prod.splits fallo_retrieve.splits)

theorem fallos_previos_sin_cambios_witness:
  "codigo (fst (verificar_sesion_checkout (\<lambda>_. Inr ((sesion_demo 2300)\<lparr>status := ''open''\<rparr>))
          (\<lambda>_. None) (Some ''cs_1'') db_demo)) = 400
   \<and> snd (verificar_sesion_checkout (\<lambda>_. Inr ((sesion_demo 2300)\<lparr>status := ''open''\<rparr>))
          (\<lambda>_. None) (Some ''cs_1'') db_demo) = db_demo"
proof -
  let ?ses = "(sesion_demo 2300)\<lparr>status := ''open''\<rparr>"
  let ?run = "verificar_sesion_checkout (\<lambda>_. Inr ?ses) (\<lambda>_. None) (Some ''cs_1'') db_demo"
  have h: "\<not> truthy (Some ''cs_1'')
     \<or> (\<exists>ses. (Inr ?ses :: fallo_retrieve + session) = Inr ses
          \<and> (status ses \<noteq> ''complete''
             \<or> \<not> truthy (metadata ses ''user_id'')
             \<or> \<not> truthy (metadata ses ''tienda_id'')
             \<or> \<not> truthy (metadata ses ''direccion_entrega'')
             \<or> \<not> truthy (metadata ses ''items_data'')
             \<or> \<not> truthy (payment_intent ses)
             \<or> (None :: items_payload option) = None))"
    by (simp add: sesion_demo_def)
  have c: "codigo (fst ?run) = 400"
    by (simp add: verificar_sesion_checkout_def truthy_def texto_def sesion_demo_def)
  have "snd ?run = db_demo"
    using fallos_previos_sin_cambios [of "Some ''cs_1''" "\<lambda>_. Inr ?ses" "\<lambda>_. None" db_demo, OF h]
    by blast
  with c show ?thesis by blast
qed

subsection \<open>Staff status update\<close>

lemma find_indice:
  "List.find P [0..<n] = Some i \<Longrightarrow> i < n \<and> P i"
  by (auto simp: find_Some_iff)


lemma envio_de_Some:
  "envio_de pk s = Some i \<Longrightarrow> i < length (envios s) \<and> envio_venta (envios s ! i) = pk"
  unfolding envio_de_def by (drule find_indice) simp

lemma pagos_first_cong: "pagos s1 = pagos s \<Longrightarrow> pagos_first pk s1 = pagos_first pk s"
  by (simp add: pagos_first_def)

lemma envio_de_cong: "envios s1 = envios s \<Longrightarrow> envio_de pk s1 = envio_de pk s"
  by (simp add: envio_de_def)

text \<open>What each block does, by cases on its field.\<close>

lemma actualizar_estado_venta_casos:
  "actualizar_estado_venta ev usuario pk v s =
     (if \<not> truthy v then (None, s)
      else if texto v \<notin> set ev
      then (Some \<lparr>codigo = 400, contenido = EstadoNoValido (texto v) ModeloVenta\<rparr>, s)
      else (None, registrar (ActualizoEstadoVenta pk (texto v)) usuario
                    (s\<lparr>ventas := (ventas s)[pk := (ventas s ! pk)\<lparr>venta_estado := texto v\<rparr>]\<rparr>)))"
  by (simp add: actualizar_estado_venta_def)






lemma busquedas_estables [simp]:
  "pagos_first pk (registrar a u s) = pagos_first pk s"
  "pagos_first pk (s\<lparr>ventas := vs\<rparr>) = pagos_first pk s"
  "envio_de pk (registrar a u s) = envio_de pk s"
  "envio_de pk (s\<lparr>ventas := vs\<rparr>) = envio_de pk s"
  "envio_de pk (s\<lparr>pagos := ps\<rparr>) = envio_de pk s"
  by (simp_all add: pagos_first_def envio_de_def registrar_def)

lemma registrar_campos [simp]:
  "ventas (registrar a u s) = ventas s"
  "pagos (registrar a u s) = pagos s"
  "envios (registrar a u s) = envios s"
  by (simp_all add: registrar_def)









end
